theory Spec2Isabelle
  imports Complex_Main
begin

section \<open>Linear transforms (nitransforms/linear.py)\<close>

text \<open>
  A shallow embedding of \<^verbatim>\<open>nitransforms/linear.py\<close>: the classes \<^verbatim>\<open>Affine\<close> and
  \<^verbatim>\<open>LinearTransformsMapping\<close> and the module-level \<^verbatim>\<open>load\<close>.

  Numbers. The arrays of the source hold IEEE floating-point numbers. The embedding
  computes with exact rationals: every statement below is a statement about the
  arithmetic the code asks numpy to perform, without rounding. On inputs whose
  intermediate values are small integers (the concrete scenarios, the integer
  translations of the round trip) floating-point arithmetic is exact and the two
  coincide.

  Arrays. A 1-D array is a list, a 2-D array the list of its rows, a stack of matrices a
  list of 2-D arrays. numpy arrays are rectangular; a list of rows is rectangular when
  \<open>rect\<close> holds of it. A 2-D array with no rows is \<open>[]\<close> and carries no column count.
\<close>

subsection \<open>Errors and Python values\<close>

text \<open>
  Exceptions are values. \<open>ValueError\<close> carries the message and the arguments of the
  \<^verbatim>\<open>%\<close> operator of the source, when it has any.
\<close>

datatype error =
    TypeError string
  | ValueError string "nat list"
  | LinAlgError string
  | IndexError string
  | AttributeError string
  | UnboundLocalError string
  | NotImplementedError

text \<open>
  The values a caller can pass for the \<^verbatim>\<open>inverse\<close> flag of \<^verbatim>\<open>map\<close>. The source tests
  \<^verbatim>\<open>inverse is True\<close>: object identity with the singleton \<^verbatim>\<open>True\<close>.
\<close>

datatype pyobj = PyNone | PyBool bool | PyInt int | PyStr string


definition is_True :: "pyobj \<Rightarrow> bool" where
  "is_True v = (v = PyBool True)"

subsection \<open>Arrays\<close>

type_synonym vec = "rat list"
type_synonym mat = "rat list list"

datatype ndarray = Arr0 rat | Arr1 vec | Arr2 mat | Arr3 "mat list"

definition rect :: "nat \<Rightarrow> nat \<Rightarrow> mat \<Rightarrow> bool" where
  "rect r c m = (length m = r \<and> list_all (\<lambda>row. length row = c) m)"

definition nrows :: "mat \<Rightarrow> nat" where
  "nrows m = length m"

definition ncols :: "mat \<Rightarrow> nat" where
  "ncols m = (case m of [] \<Rightarrow> 0 | row # _ \<Rightarrow> length row)"

fun ndim :: "ndarray \<Rightarrow> nat" where
  "ndim (Arr0 _) = 0"
| "ndim (Arr1 _) = 1"
| "ndim (Arr2 _) = 2"
| "ndim (Arr3 _) = 3"

fun shape :: "ndarray \<Rightarrow> nat list" where
  "shape (Arr0 _) = []"
| "shape (Arr1 v) = [length v]"
| "shape (Arr2 m) = [nrows m, ncols m]"
| "shape (Arr3 ms) = [length ms, (case ms of [] \<Rightarrow> 0 | m # _ \<Rightarrow> nrows m),
                      (case ms of [] \<Rightarrow> 0 | m # _ \<Rightarrow> ncols m)]"

text \<open>The rows of a 2-D array.\<close>

fun rows_of :: "ndarray \<Rightarrow> mat" where
  "rows_of (Arr2 m) = m"
| "rows_of _ = []"

text \<open>\<^verbatim>\<open>np.eye(n)\<close>.\<close>

definition unit_vec :: "nat \<Rightarrow> nat \<Rightarrow> vec" where
  "unit_vec n i = map (\<lambda>j. if j = i then 1 else 0) [0..<n]"

definition eye :: "nat \<Rightarrow> mat" where
  "eye n = map (unit_vec n) [0..<n]"

definition dot :: "vec \<Rightarrow> vec \<Rightarrow> rat" where
  "dot u v = sum_list (map2 (*) u v)"

definition matvec :: "mat \<Rightarrow> vec \<Rightarrow> vec" where
  "matvec a v = map (\<lambda>row. dot row v) a"

text \<open>
  \<^verbatim>\<open>a.dot(h.T).T\<close> for a matrix \<open>a\<close> and an array \<open>h\<close> holding one point per row: row
  \<open>i\<close> of the result is \<open>a\<close> applied to point \<open>i\<close>. numpy refuses the product with a
  \<^verbatim>\<open>ValueError\<close> when the points do not have as many coordinates as \<open>a\<close> has columns.
\<close>

definition dot_T :: "mat \<Rightarrow> mat \<Rightarrow> error + mat" where
  "dot_T a h =
     (if list_all (\<lambda>p. length p = ncols a) h then Inr (map (matvec a) h)
      else Inl (ValueError ''shapes not aligned'' []))"

subsection \<open>\<^verbatim>\<open>np.linalg.inv\<close>\<close>

text \<open>
  The inverse, by Gauss-Jordan elimination on the rows of \<open>[a | I]\<close>. Column by column,
  a row with a non-zero entry in the column is taken from the rows not yet used, scaled
  to make the entry 1, and subtracted from every other row; when no such row exists the
  matrix is singular. LAPACK picks the pivot of largest magnitude; in exact arithmetic
  the inverse does not depend on the choice.
\<close>

fun find_pivot :: "nat \<Rightarrow> vec list \<Rightarrow> (vec \<times> vec list) option" where
  "find_pivot k [] = None"
| "find_pivot k (r # rs) =
     (if r ! k \<noteq> 0 then Some (r, rs)
      else (case find_pivot k rs of
              None \<Rightarrow> None
            | Some (p, rest) \<Rightarrow> Some (p, r # rest)))"

definition scale :: "rat \<Rightarrow> vec \<Rightarrow> vec" where
  "scale c v = map (\<lambda>x. c * x) v"

definition eliminate :: "nat \<Rightarrow> vec \<Rightarrow> vec \<Rightarrow> vec" where
  "eliminate k p r = map2 (\<lambda>x y. x - (r ! k) * y) r p"

fun gauss_jordan :: "nat \<Rightarrow> nat \<Rightarrow> vec list \<Rightarrow> vec list \<Rightarrow> error + vec list" where
  "gauss_jordan 0 k used pending = Inr used"
| "gauss_jordan (Suc m) k used pending =
     (case find_pivot k pending of
        None \<Rightarrow> Inl (LinAlgError ''Singular matrix'')
      | Some (p, rest) \<Rightarrow>
          (let q = scale (1 / (p ! k)) p
           in gauss_jordan m (Suc k) (map (eliminate k q) used @ [q])
                (map (eliminate k q) rest)))"

definition augment :: "mat \<Rightarrow> vec list" where
  "augment a = map2 (\<lambda>row i. row @ unit_vec (length a) i) a [0..<length a]"

definition np_linalg_inv :: "mat \<Rightarrow> error + mat" where
  "np_linalg_inv a =
     (if \<not> rect (length a) (length a) a
      then Inl (LinAlgError ''Last 2 dimensions of the array must be square'')
      else (case gauss_jordan (length a) 0 [] (augment a) of
              Inl e \<Rightarrow> Inl e
            | Inr rows \<Rightarrow> Inr (map (drop (length a)) rows)))"

text \<open>The first error of a list of results, or all the values (a list comprehension).\<close>

fun sequence :: "(error + 'a) list \<Rightarrow> error + 'a list" where
  "sequence [] = Inr []"
| "sequence (Inl e # _) = Inl e"
| "sequence (Inr y # rs) = (case sequence rs of Inl e \<Rightarrow> Inl e | Inr ys \<Rightarrow> Inr (y # ys))"

subsection \<open>The homogeneous coordinate utility\<close>

text \<open>
  The argument \<^verbatim>\<open>x\<close> of \<^verbatim>\<open>map\<close>: one point, as in \<^verbatim>\<open>map((0, 0, 0))\<close>, or an array with
  one point per row.
\<close>

datatype coords = Point vec | Points mat

fun atleast_2d :: "coords \<Rightarrow> mat" where
  "atleast_2d (Point p) = [p]"
| "atleast_2d (Points ps) = ps"

text \<open>
  Modelled from the spec: \<^verbatim>\<open>_as_homogeneous\<close> is imported from \<^verbatim>\<open>base.py\<close>, which is
  not part of the source at hand. The spec describes it as the utility that converts
  N x D Cartesian point sets to N x (D+1) homogeneous form, a point being represented
  "with an appended constant 1". Points that already have \<open>d + 1\<close> coordinates
  (\<open>d\<close> is the argument \<^verbatim>\<open>dim\<close>) are in homogeneous form and are returned as they
  are (\<^verbatim>\<open>apply\<close> hands it the output of \<^verbatim>\<open>LinearTransformsMapping.map\<close>, which has
  that many). Rows of different lengths are not an array of numbers.
\<close>

definition as_homogeneous :: "coords \<Rightarrow> int \<Rightarrow> error + mat" where
  "as_homogeneous xyz d =
     (let a = atleast_2d xyz in
      if \<not> rect (nrows a) (ncols a) a
      then Inl (ValueError ''setting an array element with a sequence.'' [])
      else if int (ncols a) = d + 1 then Inr a
      else Inr (map (\<lambda>p. p @ [1]) a))"

subsection \<open>\<^verbatim>\<open>class Affine\<close>\<close>

text \<open>
  The reference is an object of a type \<open>'r\<close> the embedding does not look into.
  Modelled from the spec: \<^verbatim>\<open>TransformBase\<close> (\<^verbatim>\<open>base.py\<close>) is not part of the source at
  hand; its constructor leaves the transform without a reference and its \<^verbatim>\<open>reference\<close>
  setter binds the grid it is given ("optional bound grid"). A reference object that is
  supplied is taken to be truthy.
\<close>

record 'r Affine =
  matrix :: mat
  reference :: "'r option"

text \<open>
  \<^verbatim>\<open>Affine.__init__(self, matrix=None, reference=None)\<close>. The argument is the array
  \<^verbatim>\<open>np.array(matrix)\<close>.
\<close>

definition Affine_init :: "ndarray option \<Rightarrow> 'r option \<Rightarrow> error + 'r Affine" where
  "Affine_init matrix_arg reference_arg =
     (let m = (case matrix_arg of None \<Rightarrow> Arr2 (eye 4) | Some a \<Rightarrow> a) in
      if ndim m \<noteq> 2 then Inl (TypeError ''Affine should be 2D.'')
      else if shape m ! 0 \<noteq> shape m ! 1 then Inl (TypeError ''Matrix is not square.'')
      else Inr \<lparr>matrix = rows_of m, reference = reference_arg\<rparr>)"

text \<open>
  \<^verbatim>\<open>Affine.map(self, x, inverse=False)\<close>. The points are kept one per row, so that
  \<^verbatim>\<open>coords\<close> here is the source's \<^verbatim>\<open>coords.T\<close>, and \<^verbatim>\<open>[..., :-1]\<close> drops the last
  coordinate of every mapped point.
\<close>

definition Affine_map :: "'r Affine \<Rightarrow> coords \<Rightarrow> pyobj \<Rightarrow> error + mat" where
  "Affine_map self x inverse_arg =
     (case as_homogeneous x (int (shape (Arr2 (matrix self)) ! 0) - 1) of
        Inl e \<Rightarrow> Inl e
      | Inr coords \<Rightarrow>
          (case (if is_True inverse_arg then np_linalg_inv (matrix self)
                 else Inr (matrix self)) of
             Inl e \<Rightarrow> Inl e
           | Inr affine \<Rightarrow>
               (case dot_T affine coords of
                  Inl e \<Rightarrow> Inl e
                | Inr y \<Rightarrow> Inr (map butlast y))))"

subsection \<open>\<^verbatim>\<open>class LinearTransformsMapping\<close>\<close>

record 'r LinearTransformsMapping =
  matrices :: "mat list"
  series_reference :: "'r option"

text \<open>
  An element of the sequence \<^verbatim>\<open>transforms\<close>: an \<^verbatim>\<open>Affine\<close> instance or an array to build
  one from.
\<close>

datatype 'r xfm = Instance "'r Affine" | Raw ndarray

definition xfm_matrix :: "'r xfm \<Rightarrow> error + mat" where
  "xfm_matrix x =
     (case x of
        Instance a \<Rightarrow> Inr (matrix a)
      | Raw arr \<Rightarrow>
          (case (Affine_init (Some arr) None :: error + 'r Affine) of
             Inl e \<Rightarrow> Inl e
           | Inr a \<Rightarrow> Inr (matrix a)))"

text \<open>\<^verbatim>\<open>np.stack(arrays, axis=0)\<close> of 2-D arrays.\<close>

definition np_stack :: "mat list \<Rightarrow> error + mat list" where
  "np_stack ms =
     (case ms of
        [] \<Rightarrow> Inl (ValueError ''need at least one array to stack'' [])
      | m # _ \<Rightarrow>
          if list_all (\<lambda>m'. nrows m' = nrows m \<and> ncols m' = ncols m) ms then Inr ms
          else Inl (ValueError ''all input arrays must have the same shape'' []))"

text \<open>
  \<^verbatim>\<open>LinearTransformsMapping.__init__(self, transforms, reference=None)\<close>.
  \<^verbatim>\<open>np.shape(transforms)[0]\<close> is the length of the sequence.
\<close>

definition LinearTransformsMapping_init ::
  "'r xfm list option \<Rightarrow> 'r option \<Rightarrow> error + 'r LinearTransformsMapping" where
  "LinearTransformsMapping_init transforms reference_arg =
     (case (Affine_init None reference_arg :: error + 'r Affine) of
        Inl e \<Rightarrow> Inl e
      | Inr base \<Rightarrow>
          (case transforms of
             None \<Rightarrow> Inl (TypeError
               ''Transforms should be a list of Affines or linear transforms matrix with at least two elements.'')
           | Some ts \<Rightarrow>
               if length ts < 1 then Inl (TypeError
                 ''Transforms should be a list of Affines or linear transforms matrix with at least two elements.'')
               else (case sequence (map xfm_matrix ts) of
                       Inl e \<Rightarrow> Inl e
                     | Inr ms \<Rightarrow>
                         (case np_stack ms of
                            Inl e \<Rightarrow> Inl e
                          | Inr stacked \<Rightarrow>
                              Inr \<lparr>matrices = stacked,
                                   series_reference = reference base\<rparr>))))"

text \<open>
  An element of the sequence is well-formed of size \<open>n\<close> when it is, or holds, a square
  matrix with \<open>n\<close> rows.
\<close>

definition square_xfm :: "nat \<Rightarrow> 'r xfm \<Rightarrow> bool" where
  "square_xfm n x =
     (case x of
        Instance a \<Rightarrow> rect n n (matrix a)
      | Raw arr \<Rightarrow> ndim arr = 2 \<and> rect n n (rows_of arr))"

text \<open>\<^verbatim>\<open>__getitem__\<close> with Python's indexing, and \<^verbatim>\<open>__len__\<close>.\<close>

definition getitem :: "'r LinearTransformsMapping \<Rightarrow> int \<Rightarrow> error + 'r Affine" where
  "getitem self i =
     (let n = int (length (matrices self)); j = (if i < 0 then n + i else i) in
      if 0 \<le> j \<and> j < n
      then Affine_init (Some (Arr2 (matrices self ! nat j))) (series_reference self)
      else Inl (IndexError ''index out of bounds''))"

definition len :: "'r LinearTransformsMapping \<Rightarrow> nat" where
  "len self = length (matrices self)"

text \<open>
  \<^verbatim>\<open>LinearTransformsMapping.map(self, x, inverse=False)\<close>. \<^verbatim>\<open>np.linalg.inv\<close> inverts
  each matrix of the stack, and \<^verbatim>\<open>np.swapaxes(affine.dot(coords), 1, 2)\<close> holds, for each
  matrix, one mapped point per row; no coordinate is dropped.
\<close>

definition LinearTransformsMapping_map ::
  "'r LinearTransformsMapping \<Rightarrow> coords \<Rightarrow> pyobj \<Rightarrow> error + mat list" where
  "LinearTransformsMapping_map self x inverse_arg =
     (case as_homogeneous x (int (last (shape (Arr3 (matrices self)))) - 1) of
        Inl e \<Rightarrow> Inl e
      | Inr coords \<Rightarrow>
          (case (if is_True inverse_arg then sequence (map np_linalg_inv (matrices self))
                 else Inr (matrices self)) of
             Inl e \<Rightarrow> Inl e
           | Inr affine \<Rightarrow> sequence (map (\<lambda>a. dot_T a coords) affine)))"

subsection \<open>\<^verbatim>\<open>Affine.__eq__\<close>\<close>







subsection \<open>Format export and import\<close>

text \<open>\<^verbatim>\<open>str.lower()\<close> on ASCII strings.\<close>

definition lower_char :: "char \<Rightarrow> char" where
  "lower_char c =
     (case map_of (zip ''ABCDEFGHIJKLMNOPQRSTUVWXYZ'' ''abcdefghijklmnopqrstuvwxyz'') c of
        Some l \<Rightarrow> l
      | None \<Rightarrow> c)"

definition lower :: "string \<Rightarrow> string" where
  "lower s = map lower_char s"

text \<open>
  The format adapters of the package \<^verbatim>\<open>io\<close> and the class \<^verbatim>\<open>ImageGrid\<close> are not part of
  the source at hand: they are parameters. A writer stands for \<^verbatim>\<open>from_ras(...)\<close> followed
  by \<^verbatim>\<open>to_filename(filename)\<close> and yields the text it stores in the file (a writer that
  raises is taken to store nothing); a reader stands for \<^verbatim>\<open>from_filename(filename)\<close>
  followed by \<^verbatim>\<open>to_ras(reference, moving)\<close> and yields the stack of matrices of the file.
  \<open>lta_to_string\<close> is \<^verbatim>\<open>LinearTransformArray.to_string\<close>, given the type of the array and, for
  each of its transforms, \<^verbatim>\<open>sigma\<close>, \<^verbatim>\<open>m_L\<close>, \<^verbatim>\<open>src\<close> and \<^verbatim>\<open>dst\<close>. \<open>'i\<close> is the type of
  images, \<open>'r\<close> of reference grids, \<open>'g\<close> of volume geometries.
\<close>

datatype factory = ITKLinearTransformArray | LinearTransformArray

record ('i, 'r, 'g) io_module =
  ImageGrid :: "'i \<Rightarrow> error + 'r"
  itk_LinearTransform :: "mat \<Rightarrow> error + string"
  itk_LinearTransformArray :: "mat list \<Rightarrow> error + string"
  afni_LinearTransform :: "mat \<Rightarrow> 'r option \<Rightarrow> 'r option \<Rightarrow> error + string"
  afni_LinearTransformArray :: "mat list \<Rightarrow> 'r option \<Rightarrow> 'r option \<Rightarrow> error + string"
  fsl_LinearTransform :: "mat \<Rightarrow> 'r option \<Rightarrow> 'r option \<Rightarrow> error + string"
  fsl_LinearTransformArray :: "mat list \<Rightarrow> 'r option \<Rightarrow> 'r option \<Rightarrow> error + string"
  VolumeGeometry_from_image :: "'r option \<Rightarrow> error + 'g"
  lta_to_string :: "nat \<Rightarrow> (rat \<times> mat list \<times> 'g \<times> 'g) list \<Rightarrow> error + string"
  read_transforms :: "factory \<Rightarrow> string \<Rightarrow> 'r option \<Rightarrow> 'i option \<Rightarrow> error + mat list"

text \<open>The files written so far: a map from file names to contents.\<close>

type_synonym files = "string \<rightharpoonup> string"

definition write_file ::
  "string \<Rightarrow> error + string \<Rightarrow> files \<Rightarrow> (error + string) \<times> files" where
  "write_file filename content fs =
     (case content of
        Inl e \<Rightarrow> (Inl e, fs)
      | Inr text \<Rightarrow> (Inr filename, fs(filename \<mapsto> text)))"

text \<open>The default of the parameter \<^verbatim>\<open>fmt\<close> of \<^verbatim>\<open>to_filename\<close>, \<^verbatim>\<open>from_filename\<close> and \<^verbatim>\<open>load\<close>.\<close>

definition default_fmt :: string where
  "default_fmt = ''X5''"

text \<open>
  \<^verbatim>\<open>moving = ImageGrid(moving) if moving is not None else self.reference\<close>, shared by
  both \<^verbatim>\<open>to_filename\<close> methods.
\<close>

definition moving_grid ::
  "('i, 'r, 'g) io_module \<Rightarrow> 'i option \<Rightarrow> 'r option \<Rightarrow> error + 'r option" where
  "moving_grid io moving ref =
     (case moving of
        Some img \<Rightarrow> (case ImageGrid io img of Inl e \<Rightarrow> Inl e | Inr g \<Rightarrow> Inr (Some g))
      | None \<Rightarrow> Inr ref)"

text \<open>
  The branch \<^verbatim>\<open>fs\<close> of both \<^verbatim>\<open>to_filename\<close> methods: one transform record with
  \<^verbatim>\<open>sigma = 1\<close>, the matrices \<^verbatim>\<open>m_L\<close> and the two geometries, in an array of type 1
  (RAS2RAS). The file is opened for writing, hence emptied, before the text is computed.
\<close>

definition write_lta ::
  "('i, 'r, 'g) io_module \<Rightarrow> string \<Rightarrow> mat list \<Rightarrow> 'r option \<Rightarrow> 'r option \<Rightarrow> files
     \<Rightarrow> (error + string) \<times> files" where
  "write_lta io filename m_L moving ref fs =
     (case VolumeGeometry_from_image io moving of
        Inl e \<Rightarrow> (Inl e, fs)
      | Inr src \<Rightarrow>
          (case VolumeGeometry_from_image io ref of
             Inl e \<Rightarrow> (Inl e, fs)
           | Inr dst \<Rightarrow>
               (case lta_to_string io 1 [(1, m_L, src, dst)] of
                  Inl e \<Rightarrow> (Inl e, fs(filename \<mapsto> []))
                | Inr text \<Rightarrow> (Inr filename, fs(filename \<mapsto> text)))))"

text \<open>\<^verbatim>\<open>Affine.to_filename(self, filename, fmt='X5', moving=None)\<close>.\<close>

definition Affine_to_filename ::
  "('i, 'r, 'g) io_module \<Rightarrow> 'r Affine \<Rightarrow> string \<Rightarrow> string \<Rightarrow> 'i option \<Rightarrow> files
     \<Rightarrow> (error + string) \<times> files" where
  "Affine_to_filename io self filename fmt moving fs =
     (if lower fmt \<in> set [''itk'', ''ants'', ''elastix'']
      then write_file filename (itk_LinearTransform io (matrix self)) fs
      else (case moving_grid io moving (reference self) of
              Inl e \<Rightarrow> (Inl e, fs)
            | Inr mov \<Rightarrow>
                if lower fmt = ''afni''
                then write_file filename
                       (afni_LinearTransform io (matrix self) mov (reference self)) fs
                else if lower fmt = ''fsl''
                then write_file filename
                       (fsl_LinearTransform io (matrix self) mov (reference self)) fs
                else if lower fmt = ''fs''
                then write_lta io filename [matrix self] mov (reference self) fs
                else (Inl NotImplementedError, fs)))"

text \<open>\<^verbatim>\<open>LinearTransformsMapping.to_filename(self, filename, fmt='X5', moving=None)\<close>.\<close>

definition LinearTransformsMapping_to_filename ::
  "('i, 'r, 'g) io_module \<Rightarrow> 'r LinearTransformsMapping \<Rightarrow> string \<Rightarrow> string \<Rightarrow> 'i option
     \<Rightarrow> files \<Rightarrow> (error + string) \<times> files" where
  "LinearTransformsMapping_to_filename io self filename fmt moving fs =
     (if lower fmt \<in> set [''itk'', ''ants'', ''elastix'']
      then write_file filename (itk_LinearTransformArray io (matrices self)) fs
      else (case moving_grid io moving (series_reference self) of
              Inl e \<Rightarrow> (Inl e, fs)
            | Inr mov \<Rightarrow>
                if lower fmt = ''afni''
                then write_file filename
                       (afni_LinearTransformArray io (matrices self) mov
                          (series_reference self)) fs
                else if lower fmt = ''fsl''
                then write_file filename
                       (fsl_LinearTransformArray io (matrices self) mov
                          (series_reference self)) fs
                else if lower fmt = ''fs''
                then write_lta io filename (matrices self) mov (series_reference self) fs
                else (Inl NotImplementedError, fs)))"

text \<open>
  \<^verbatim>\<open>Affine.from_filename(cls, filename, fmt='X5', reference=None, moving=None)\<close>, a class
  method: \<open>cls\<close> is the class it is called on, and the result an instance of it.
  Iterating over the stack \<^verbatim>\<open>matrix\<close> yields its matrices.
\<close>

datatype cls = Cls_Affine | Cls_LinearTransformsMapping

datatype 'r transform =
    An_Affine "'r Affine"
  | A_Mapping "'r LinearTransformsMapping"

definition select_factory :: "string \<Rightarrow> error + factory" where
  "select_factory fmt =
     (if lower fmt \<in> set [''itk'', ''ants'', ''elastix''] then Inr ITKLinearTransformArray
      else if lower fmt \<in> set [''lta'', ''fs''] then Inr LinearTransformArray
      else Inl NotImplementedError)"

definition from_filename ::
  "('i, 'r, 'g) io_module \<Rightarrow> cls \<Rightarrow> string \<Rightarrow> string \<Rightarrow> 'r option \<Rightarrow> 'i option
     \<Rightarrow> error + 'r transform" where
  "from_filename io c filename fmt reference_arg moving =
     (case select_factory fmt of
        Inl e \<Rightarrow> Inl e
      | Inr fac \<Rightarrow>
          (case read_transforms io fac filename reference_arg moving of
             Inl e \<Rightarrow> Inl e
           | Inr ms \<Rightarrow>
               (case c of
                  Cls_Affine \<Rightarrow>
                    if length ms \<noteq> 1
                    then Inl (TypeError (''Cannot load transform array '' @ [CHR 0x22] @ filename
                           @ [CHR 0x22]))
                    else (case Affine_init (Some (Arr2 (ms ! 0))) reference_arg of
                            Inl e \<Rightarrow> Inl e
                          | Inr a \<Rightarrow> Inr (An_Affine a))
                | Cls_LinearTransformsMapping \<Rightarrow>
                    (case LinearTransformsMapping_init
                            (Some (map (\<lambda>m. Raw (Arr2 m)) ms)) reference_arg of
                       Inl e \<Rightarrow> Inl e
                     | Inr m \<Rightarrow> Inr (A_Mapping m)))))"

text \<open>\<^verbatim>\<open>load(filename, fmt='X5', reference=None, moving=None)\<close>.\<close>

definition load ::
  "('i, 'r, 'g) io_module \<Rightarrow> string \<Rightarrow> string \<Rightarrow> 'r option \<Rightarrow> 'i option
     \<Rightarrow> error + 'r transform" where
  "load io filename fmt reference_arg moving =
     (case from_filename io Cls_LinearTransformsMapping filename fmt reference_arg moving of
        Inl e \<Rightarrow> Inl e
      | Inr (An_Affine a) \<Rightarrow> Inr (An_Affine a)
      | Inr (A_Mapping xfm) \<Rightarrow>
          if len xfm = 1
          then (case getitem xfm 0 of Inl e \<Rightarrow> Inl e | Inr a \<Rightarrow> Inr (An_Affine a))
          else Inr (A_Mapping xfm))"

subsection \<open>\<^verbatim>\<open>LinearTransformsMapping.apply\<close>\<close>

text \<open>
  The collaborators of \<^verbatim>\<open>apply\<close> are parameters: nibabel's \<^verbatim>\<open>load\<close>, the classes
  \<^verbatim>\<open>SpatialReference\<close> and \<^verbatim>\<open>ImageGrid\<close> of \<^verbatim>\<open>base.py\<close>, the data of an image and
  scipy's \<^verbatim>\<open>ndimage.map_coordinates\<close>. \<open>'i\<close> is the type of images, \<open>'r\<close> of sampling
  references. \<open>map_coordinates img None c opts\<close> interpolates the whole (squeezed) data
  of \<open>img\<close> at the coordinates \<open>c\<close>, \<open>map_coordinates img (Some t) c opts\<close> the volume
  \<^verbatim>\<open>data[..., t]\<close>.
\<close>

record interp_opts =
  order :: nat
  mode :: string
  cval :: rat
  prefilter :: bool

record ('i, 'r) collaborators =
  nbload :: "string \<Rightarrow> error + 'i"
  factory :: "'i \<Rightarrow> error + 'r"
  dataobj_shape :: "'i \<Rightarrow> nat list"
  ndcoords_T :: "'r \<Rightarrow> mat"
  ref_ndim :: "'r \<Rightarrow> nat"
  ref_shape :: "'r \<Rightarrow> nat list"
  is_ImageGrid :: "'r \<Rightarrow> bool"
  index :: "'i \<Rightarrow> mat \<Rightarrow> error + mat"
  map_coordinates :: "'i \<Rightarrow> nat option \<Rightarrow> mat \<Rightarrow> interp_opts \<Rightarrow> error + vec"

text \<open>An argument that is either a path (\<^verbatim>\<open>str\<close> or \<^verbatim>\<open>Path\<close>) or the object itself.\<close>

datatype 'a path_or = Path string | Object 'a

text \<open>The calls of \<^verbatim>\<open>ndi.map_coordinates\<close> made so far, each with the volume it was given.\<close>

datatype call = Map_coordinates "nat option"

text \<open>\<^verbatim>\<open>np.squeeze\<close> removes every axis of length 1.\<close>

definition squeeze :: "nat list \<Rightarrow> nat list" where
  "squeeze dims = filter (\<lambda>d. d \<noteq> 1) dims"

text \<open>\<^verbatim>\<open>a.reshape((m, -1, ...))\<close> on the rows of \<open>a\<close>: \<open>m\<close> groups of equally many rows.\<close>

definition reshape_rows :: "nat \<Rightarrow> 'a list \<Rightarrow> error + 'a list list" where
  "reshape_rows m a =
     (if m = 0 \<and> a \<noteq> [] \<or> m \<noteq> 0 \<and> length a mod m \<noteq> 0
      then Inl (ValueError ''cannot reshape array'' [])
      else Inr (map (\<lambda>t. take (length a div m) (drop (t * (length a div m)) a)) [0..<m]))"

text \<open>
  The list comprehension of the 4-D branch: one call of \<^verbatim>\<open>map_coordinates\<close> per volume,
  in order, stopping at the first that raises.
\<close>

fun map_volumes ::
  "('i, 'r) collaborators \<Rightarrow> 'i \<Rightarrow> nat \<Rightarrow> interp_opts \<Rightarrow> mat list \<Rightarrow> nat list
     \<Rightarrow> call list \<Rightarrow> (error + vec list) \<times> call list" where
  "map_volumes env img nd opts targets [] calls = (Inr [], calls)"
| "map_volumes env img nd opts targets (t # ts) calls =
     (case map_coordinates env img (Some t) (map (take nd) (targets ! t)) opts of
        Inl e \<Rightarrow> (Inl e, calls @ [Map_coordinates (Some t)])
      | Inr v \<Rightarrow>
          (case map_volumes env img nd opts targets ts (calls @ [Map_coordinates (Some t)]) of
             (Inl e, calls') \<Rightarrow> (Inl e, calls')
           | (Inr vs, calls') \<Rightarrow> (Inr (v # vs), calls')))"

text \<open>
  The result of \<^verbatim>\<open>apply\<close>: a new image, given by the array \<^verbatim>\<open>newdata\<close> it is built from
  (one resampled volume per transform, each with as many samples as the reference has),
  or the interpolated array as it is (per volume in the 4-D branch, flat otherwise).
\<close>

datatype resampled = Moved "vec list" | Stacked "vec list" | Flat vec

definition resampled_values :: "resampled \<Rightarrow> vec" where
  "resampled_values r = (case r of Moved vs \<Rightarrow> concat vs | Stacked vs \<Rightarrow> concat vs | Flat v \<Rightarrow> v)"

text \<open>
  \<^verbatim>\<open>LinearTransformsMapping.apply(self, spatialimage, reference=None, order=3,
  mode='constant', cval=0.0, prefilter=True, output_dtype=None)\<close>. The second component
  of the result lists the calls of \<^verbatim>\<open>map_coordinates\<close> that were made. The steps, in
  the order of the source:
  the reference is resolved (\<open>resolve_reference\<close>), the image is loaded
  (\<open>resolve_image\<close>), the sample locations are computed (\<open>sample_targets\<close>), and the data
  are interpolated according to the number of axes left after squeezing.
\<close>

definition resolve_reference ::
  "('i, 'r) collaborators \<Rightarrow> 'r LinearTransformsMapping \<Rightarrow> 'i path_or option
     \<Rightarrow> error + 'r" where
  "resolve_reference env self reference_arg =
     (case reference_arg of
        None \<Rightarrow>
          (case series_reference self of
             None \<Rightarrow> Inl (AttributeError ''NoneType object has no attribute ndcoords'')
           | Some r \<Rightarrow> Inr r)
      | Some (Path p) \<Rightarrow>
          (case nbload env p of Inl e \<Rightarrow> Inl e | Inr img \<Rightarrow> factory env img)
      | Some (Object img) \<Rightarrow> factory env img)"

definition resolve_image :: "('i, 'r) collaborators \<Rightarrow> 'i path_or \<Rightarrow> error + 'i" where
  "resolve_image env spatialimage =
     (case spatialimage of Path p \<Rightarrow> nbload env p | Object img \<Rightarrow> Inr img)"

definition sample_targets ::
  "('i, 'r) collaborators \<Rightarrow> 'r LinearTransformsMapping \<Rightarrow> 'r \<Rightarrow> 'i \<Rightarrow> error + mat" where
  "sample_targets env self ref img =
     (case LinearTransformsMapping_map self (Points (ndcoords_T env ref)) (PyBool False) of
        Inl e \<Rightarrow> Inl e
      | Inr ycoords \<Rightarrow>
          (case as_homogeneous (Points (concat ycoords)) (int (ref_ndim env ref)) of
             Inl e \<Rightarrow> Inl e
           | Inr h \<Rightarrow> index env img h))"

definition interpolate ::
  "('i, 'r) collaborators \<Rightarrow> 'r LinearTransformsMapping \<Rightarrow> 'r \<Rightarrow> 'i \<Rightarrow> interp_opts
     \<Rightarrow> mat \<Rightarrow> (error + resampled) \<times> call list" where
  "interpolate env self ref img opts targets =
     (let dims = squeeze (dataobj_shape env img) in
      if length dims = 4 then
        (if len self \<noteq> last dims
         then (Inl (ValueError
                 ''Attempting to apply %d transforms on a file with %d timepoints''
                 [len self, last dims]), [])
         else (case reshape_rows (len self) targets of
                 Inl e \<Rightarrow> (Inl e, [])
               | Inr groups \<Rightarrow>
                   (case map_volumes env img (ref_ndim env ref) opts groups
                           [0..<last dims] [] of
                      (Inl e, calls) \<Rightarrow> (Inl e, calls)
                    | (Inr vs, calls) \<Rightarrow> (Inr (Stacked vs), calls))))
      else if length dims \<in> {2, 3} then
        (case map_coordinates env img None (map (take (ref_ndim env ref)) targets) opts of
           Inl e \<Rightarrow> (Inl e, [Map_coordinates None])
         | Inr v \<Rightarrow> (Inr (Flat v), [Map_coordinates None]))
      else (Inl (UnboundLocalError ''resampled''), []))"

definition LinearTransformsMapping_apply ::
  "('i, 'r) collaborators \<Rightarrow> 'r LinearTransformsMapping \<Rightarrow> 'i path_or
     \<Rightarrow> 'i path_or option \<Rightarrow> interp_opts \<Rightarrow> (error + resampled) \<times> call list" where
  "LinearTransformsMapping_apply env self spatialimage reference_arg opts =
     (case resolve_reference env self reference_arg of
        Inl e \<Rightarrow> (Inl e, [])
      | Inr ref \<Rightarrow>
          (case resolve_image env spatialimage of
             Inl e \<Rightarrow> (Inl e, [])
           | Inr img \<Rightarrow>
               (case sample_targets env self ref img of
                  Inl e \<Rightarrow> (Inl e, [])
                | Inr targets \<Rightarrow>
                    (case interpolate env self ref img opts targets of
                       (Inl e, calls) \<Rightarrow> (Inl e, calls)
                     | (Inr resampled, calls) \<Rightarrow>
                         if is_ImageGrid env ref
                         then (case reshape_rows (len self) (resampled_values resampled) of
                                 Inl e \<Rightarrow> (Inl e, calls)
                               | Inr newdata \<Rightarrow>
                                   if list_all (\<lambda>v. length v = prod_list (ref_shape env ref))
                                        newdata
                                   then (Inr (Moved newdata), calls)
                                   else (Inl (ValueError ''cannot reshape array'' []), calls))
                         else (Inr resampled, calls)))))"

subsection \<open>Notions used in the proofs and examples\<close>





text \<open>
  Collaborators for the examples. An image is given by the shape of its data; the
  sampling reference is a grid with one sample at the origin; the image's grid is the
  identity and interpolation yields 0 everywhere.
\<close>

definition example_env :: "(nat list, unit) collaborators" where
  "example_env =
     \<lparr>nbload = (\<lambda>p. Inl (ValueError ''file not found'' [])),
      factory = (\<lambda>img. Inr ()),
      dataobj_shape = (\<lambda>img. img),
      ndcoords_T = (\<lambda>ref. [[0, 0, 0]]),
      ref_ndim = (\<lambda>ref. 3),
      ref_shape = (\<lambda>ref. [1, 1, 1]),
      is_ImageGrid = (\<lambda>ref. True),
      index = (\<lambda>img h. Inr h),
      map_coordinates = (\<lambda>img t c opts. Inr (map (\<lambda>p. 0) c))\<rparr>"

definition example_opts :: interp_opts where
  "example_opts = \<lparr>order = 3, mode = ''constant'', cval = 0, prefilter = True\<rparr>"

definition example_series :: "unit LinearTransformsMapping" where
  "example_series = \<lparr>matrices = [eye 4, eye 4], series_reference = Some ()\<rparr>"

text \<open>
  A format package for the examples: the file \<^verbatim>\<open>one.tfm\<close> holds one transform, every other
  file two; writers store the text \<^verbatim>\<open>#\<close>.
\<close>

definition example_io :: "(unit, unit, unit) io_module" where
  "example_io =
     \<lparr>ImageGrid = (\<lambda>img. Inr ()),
      itk_LinearTransform = (\<lambda>m. Inr ''#''),
      itk_LinearTransformArray = (\<lambda>ms. Inr ''#''),
      afni_LinearTransform = (\<lambda>m mov ref. Inr ''#''),
      afni_LinearTransformArray = (\<lambda>ms mov ref. Inr ''#''),
      fsl_LinearTransform = (\<lambda>m mov ref. Inr ''#''),
      fsl_LinearTransformArray = (\<lambda>ms mov ref. Inr ''#''),
      VolumeGeometry_from_image = (\<lambda>grid. Inr ()),
      lta_to_string = (\<lambda>ty xforms. Inr ''#''),
      read_transforms = (\<lambda>fac filename ref mov.
        if filename = ''one.tfm'' then Inr [eye 4] else Inr [eye 4, eye 4])\<rparr>"

section \<open>Properties\<close>

subsection \<open>Shapes\<close>

lemma rect_square: "rect n n T \<Longrightarrow> nrows T = n \<and> ncols T = n"
  by (cases T) (auto simp: rect_def nrows_def ncols_def)

lemma nrows_eye [simp]: "nrows (eye n) = n"
  by (simp add: nrows_def eye_def)

lemma ncols_eye [simp]: "ncols (eye n) = n"
  by (cases n) (simp_all add: ncols_def eye_def unit_vec_def upt_conv_Cons del: upt_Suc)

lemma length_matvec [simp]: "length (matvec a v) = length a"
  by (simp add: matvec_def)

lemma length_unit_vec [simp]: "length (unit_vec n i) = n"
  by (simp add: unit_vec_def)


lemma rect_eye: "rect n n (eye n)"
  by (simp add: rect_def eye_def list_all_iff)

subsection \<open>Construction of an \<^verbatim>\<open>Affine\<close>\<close>

lemma Affine_init_default: "Affine_init None r = Inr \<lparr>matrix = eye 4, reference = r\<rparr>"
  by (simp add: Affine_init_def)

lemma Affine_init_square:
  "rect n n T \<Longrightarrow> Affine_init (Some (Arr2 T)) r = Inr \<lparr>matrix = T, reference = r\<rparr>"
  by (simp add: Affine_init_def rect_square)

text \<open>
  C7. Constructing an \<^verbatim>\<open>Affine\<close> raises the shape error (a \<^verbatim>\<open>TypeError\<close>) exactly when the
  supplied matrix is not 2-dimensional or not square; a square 2-dimensional matrix is
  accepted and stored, and so is the default, the 4 x 4 identity.
\<close>

theorem Affine_init_shape_error:
  "((\<exists>msg. Affine_init (Some a) r = Inl (TypeError msg)) \<longleftrightarrow>
      (ndim a \<noteq> 2 \<or> shape a ! 0 \<noteq> shape a ! 1)) \<and>
   (ndim a = 2 \<and> shape a ! 0 = shape a ! 1 \<longrightarrow>
      Affine_init (Some a) r = Inr \<lparr>matrix = rows_of a, reference = r\<rparr>) \<and>
   Affine_init None r = Inr \<lparr>matrix = eye 4, reference = r\<rparr>"
  by (simp add: Affine_init_def)

theorem Affine_init_shape_error_witness:
  "ndim (Arr1 [1, 2]) \<noteq> 2 \<and>
   (\<exists>msg. Affine_init (Some (Arr1 [1, 2])) (None :: unit option) = Inl (TypeError msg)) \<and>
   ndim (Arr2 [[1, 2, 3], [4, 5, 6]]) = 2 \<and>
   shape (Arr2 [[1, 2, 3], [4, 5, 6]]) ! 0 \<noteq> shape (Arr2 [[1, 2, 3], [4, 5, 6]]) ! 1 \<and>
   (\<exists>msg. Affine_init (Some (Arr2 [[1, 2, 3], [4, 5, 6]])) (None :: unit option)
            = Inl (TypeError msg)) \<and>
   ndim (Arr2 [[1, 2], [3, 4]]) = 2 \<and>
   shape (Arr2 [[1, 2], [3, 4]]) ! 0 = shape (Arr2 [[1, 2], [3, 4]]) ! 1 \<and>
   Affine_init (Some (Arr2 [[1, 2], [3, 4]])) (None :: unit option)
     = Inr \<lparr>matrix = [[1, 2], [3, 4]], reference = None\<rparr>"
  using Affine_init_shape_error [of "Arr1 [1, 2]" "None :: unit option"]
    Affine_init_shape_error [of "Arr2 [[1, 2, 3], [4, 5, 6]]" "None :: unit option"]
    Affine_init_shape_error [of "Arr2 [[1, 2], [3, 4]]" "None :: unit option"]
  by (simp add: nrows_def ncols_def)

subsection \<open>Construction of a \<^verbatim>\<open>LinearTransformsMapping\<close>\<close>

lemma xfm_matrix_square:
  assumes sq: "square_xfm n x"
  shows "\<exists>m. xfm_matrix x = Inr m \<and> rect n n m"
proof (cases x)
  case (Instance a)
  then show ?thesis using sq by (simp add: square_xfm_def xfm_matrix_def)
next
  case (Raw arr)
  with sq obtain m where arr: "arr = Arr2 m" and m: "rect n n m"
    by (cases arr) (auto simp: square_xfm_def)
  show ?thesis using Raw arr m Affine_init_square[OF m, of "None :: 'a option"]
    by (simp add: xfm_matrix_def)
qed

lemma sequence_square:
  "list_all (square_xfm n) ts \<Longrightarrow>
     \<exists>ms. sequence (map xfm_matrix ts) = Inr ms \<and> length ms = length ts \<and>
          list_all (rect n n) ms"
proof (induction ts)
  case Nil
  then show ?case by simp
next
  case (Cons x ts)
  then obtain ms where ms: "sequence (map xfm_matrix ts) = Inr ms" "length ms = length ts"
      "list_all (rect n n) ms" by auto
  from Cons.prems obtain m where m: "xfm_matrix x = Inr m" "rect n n m"
    using xfm_matrix_square by auto
  show ?case using ms m by simp
qed

lemma np_stack_square:
  "ms \<noteq> [] \<Longrightarrow> list_all (rect n n) ms \<Longrightarrow> np_stack ms = Inr ms"
  by (cases ms) (auto simp: np_stack_def list_all_iff dest!: rect_square)

lemma LinearTransformsMapping_init_square:
  assumes "ts \<noteq> []" and "list_all (square_xfm n) ts"
  shows "\<exists>ms. LinearTransformsMapping_init (Some ts) r
                 = Inr \<lparr>matrices = ms, series_reference = r\<rparr> \<and>
              sequence (map xfm_matrix ts) = Inr ms \<and>
              length ms = length ts \<and> list_all (rect n n) ms"
proof -
  from sequence_square[OF assms(2)] obtain ms where
    ms: "sequence (map xfm_matrix ts) = Inr ms" "length ms = length ts" "list_all (rect n n) ms"
    by auto
  then have "ms \<noteq> []" using assms(1) by auto
  then have "np_stack ms = Inr ms" using ms(3) by (rule np_stack_square)
  then show ?thesis using ms assms(1)
    by (simp add: LinearTransformsMapping_init_def Affine_init_default)
qed

lemma sequence_raw:
  "list_all (rect n n) ms \<Longrightarrow>
     sequence (map xfm_matrix (map (\<lambda>m. Raw (Arr2 m) :: 'r xfm) ms)) = Inr ms"
proof (induction ms)
  case Nil
  then show ?case by simp
next
  case (Cons m ms)
  then show ?case
    using Affine_init_square[of n m "None :: 'r option"] by (simp add: xfm_matrix_def)
qed

lemma LinearTransformsMapping_init_singleton:
  "rect n n T \<Longrightarrow> LinearTransformsMapping_init (Some [Raw (Arr2 T)]) r
     = Inr \<lparr>matrices = [T], series_reference = r\<rparr>"
  by (simp add: LinearTransformsMapping_init_def Affine_init_default Affine_init_square
      xfm_matrix_def np_stack_def)

text \<open>
  C6, as amended. Constructing a \<^verbatim>\<open>LinearTransformsMapping\<close> from \<^verbatim>\<open>None\<close> or from an
  empty sequence (a sequence with no rows) fails with the empty-sequence error (a
  \<^verbatim>\<open>TypeError\<close>); construction from a non-empty sequence of square matrices and/or
  \<^verbatim>\<open>Affine\<close> instances that all have one common size succeeds, with one matrix per
  element.
\<close>

theorem empty_sequence_error:
  "(\<exists>msg. LinearTransformsMapping_init None r = Inl (TypeError msg)) \<and>
   (\<exists>msg. LinearTransformsMapping_init (Some []) r = Inl (TypeError msg)) \<and>
   (ts \<noteq> [] \<and> list_all (square_xfm n) ts \<longrightarrow>
      (\<exists>m. LinearTransformsMapping_init (Some ts) r = Inr m \<and> len m = length ts))"
proof -
  have "\<exists>m. LinearTransformsMapping_init (Some ts) r = Inr m \<and> len m = length ts"
    if "ts \<noteq> []" "list_all (square_xfm n) ts"
    using LinearTransformsMapping_init_square[OF that, of r] by (auto simp: len_def)
  then show ?thesis
    by (simp add: LinearTransformsMapping_init_def Affine_init_default)
qed

theorem empty_sequence_error_witness:
  "[Raw (Arr2 [[1, 0], [0, 1]]), Instance \<lparr>matrix = [[2, 0], [0, 2]], reference = None\<rparr>]
     \<noteq> ([] :: unit xfm list) \<and>
   list_all (square_xfm 2)
     [Raw (Arr2 [[1, 0], [0, 1]]),
      Instance \<lparr>matrix = [[2, 0], [0, 2]], reference = None :: unit option\<rparr>] \<and>
   (\<exists>m. LinearTransformsMapping_init
           (Some [Raw (Arr2 [[1, 0], [0, 1]]),
                  Instance \<lparr>matrix = [[2, 0], [0, 2]], reference = None\<rparr>])
           (None :: unit option) = Inr m \<and> len m = 2)"
  using empty_sequence_error [of "None :: unit option"
      "[Raw (Arr2 [[1, 0], [0, 1]]), Instance \<lparr>matrix = [[2, 0], [0, 2]], reference = None\<rparr>]" 2]
  by (auto simp: square_xfm_def rect_def numeral_2_eq_2)

text \<open>
  The claim as stated (construction from any non-empty sequence succeeds) fails for two
  \<^verbatim>\<open>Affine\<close> instances of different sizes: \<^verbatim>\<open>np.stack\<close> refuses them.
\<close>

theorem mixed_sizes_counterexample:
  "LinearTransformsMapping_init
     (Some [Instance \<lparr>matrix = [[1]], reference = None\<rparr>,
            Instance \<lparr>matrix = [[1, 0], [0, 1]], reference = None\<rparr>]) (None :: unit option)
   = Inl (ValueError ''all input arrays must have the same shape'' [])"
  by (simp add: LinearTransformsMapping_init_def Affine_init_default xfm_matrix_def
      np_stack_def nrows_def ncols_def)

subsection \<open>Scenario A: a translation\<close>

text \<open>
  C2. For the translation \<^verbatim>\<open>Affine([[1,0,0,1],[0,1,0,2],[0,0,1,3],[0,0,0,1]])\<close>,
  \<^verbatim>\<open>map((0,0,0))\<close> with the default \<^verbatim>\<open>inverse=False\<close> returns exactly \<^verbatim>\<open>[[1,2,3]]\<close>, and
  \<^verbatim>\<open>map((0,0,0), inverse=True)\<close> returns exactly \<^verbatim>\<open>[[-1,-2,-3]]\<close>.
\<close>

theorem scenario_A_translation:
  "(case Affine_init (Some (Arr2 [[1,0,0,1],[0,1,0,2],[0,0,1,3],[0,0,0,1]])) (None :: 'r option) of
      Inl e \<Rightarrow> False
    | Inr xfm \<Rightarrow>
        Affine_map xfm (Point [0,0,0]) (PyBool False) = Inr [[1,2,3]] \<and>
        Affine_map xfm (Point [0,0,0]) (PyBool True) = Inr [[-1,-2,-3]])"
  by code_simp

subsection \<open>The inverse flag\<close>



subsection \<open>A mapping of one transform\<close>

lemma gauss_jordan_length:
  "gauss_jordan m k used pending = Inr result \<Longrightarrow> length result = length used + m"
proof (induction m arbitrary: k used pending)
  case 0
  then show ?case by simp
next
  case (Suc m)
  then show ?case
    by (auto simp: Let_def split: option.splits prod.splits)
qed

lemma np_linalg_inv_length: "np_linalg_inv a = Inr b \<Longrightarrow> length b = length a"
  by (auto simp: np_linalg_inv_def split: if_splits sum.splits dest: gauss_jordan_length)

lemma dot_T_rows: "dot_T a h = Inr z \<Longrightarrow> \<forall>p \<in> set z. length p = length a"
  by (auto simp: dot_T_def split: if_splits)

text \<open>
  C1. For every square matrix \<open>T\<close> (in particular every 4 x 4 matrix), every point set
  and every value of the inverse flag, \<^verbatim>\<open>LinearTransformsMapping([T]).map\<close> and
  \<^verbatim>\<open>Affine(T).map\<close> agree: both constructions succeed, the mapping has length 1, both
  calls raise the same error if one does, and otherwise the mapping returns one array,
  for its one matrix, whose rows restricted to their first D columns are the rows that
  the plain \<^verbatim>\<open>Affine\<close> returns (\<open>D = n - 1\<close> for an n x n matrix).
\<close>

theorem singleton_mapping_map:
  assumes "rect n n T"
  shows "\<exists>A L. Affine_init (Some (Arr2 T)) r = Inr A \<and>
           LinearTransformsMapping_init (Some [Raw (Arr2 T)]) r = Inr L \<and> len L = 1 \<and>
           (case Affine_map A x v of
              Inl e \<Rightarrow> LinearTransformsMapping_map L x v = Inl e
            | Inr y \<Rightarrow> (\<exists>z. LinearTransformsMapping_map L x v = Inr [z] \<and>
                           map (take (n - 1)) z = y))"
proof -
  let ?A = "\<lparr>matrix = T, reference = r\<rparr>"
  let ?L = "\<lparr>matrices = [T], series_reference = r\<rparr>"
  have sq: "nrows T = n" "ncols T = n" "length T = n"
    using rect_square[OF assms] by (auto simp: nrows_def)
  have "case Affine_map ?A x v of
              Inl e \<Rightarrow> LinearTransformsMapping_map ?L x v = Inl e
            | Inr y \<Rightarrow> (\<exists>z. LinearTransformsMapping_map ?L x v = Inr [z] \<and>
                           map (take (n - 1)) z = y)"
  proof (cases "as_homogeneous x (int n - 1)")
    case (Inl e)
    then show ?thesis by (simp add: Affine_map_def LinearTransformsMapping_map_def sq)
  next
    case (Inr coords)
    show ?thesis
    proof (cases "is_True v")
      case False
      then show ?thesis using Inr sq
        by (auto simp: Affine_map_def LinearTransformsMapping_map_def butlast_conv_take
            split: sum.splits dest!: dot_T_rows)
    next
      case True
      then show ?thesis using Inr sq
        by (auto simp: Affine_map_def LinearTransformsMapping_map_def butlast_conv_take
            split: sum.splits dest!: dot_T_rows np_linalg_inv_length)
    qed
  qed
  then show ?thesis
    using Affine_init_square[OF assms, of r] LinearTransformsMapping_init_singleton[OF assms, of r]
    by (simp add: len_def)
qed

theorem singleton_mapping_map_witness:
  "rect 4 4 [[1,0,0,1],[0,1,0,2],[0,0,1,3],[0,0,0,1]] \<and>
   (\<exists>A L. Affine_init (Some (Arr2 [[1,0,0,1],[0,1,0,2],[0,0,1,3],[0,0,0,1]]))
             (None :: unit option) = Inr A \<and>
          LinearTransformsMapping_init (Some [Raw (Arr2 [[1,0,0,1],[0,1,0,2],[0,0,1,3],[0,0,0,1]])])
             (None :: unit option) = Inr L \<and> len L = 1 \<and>
          (case Affine_map A (Point [0,0,0]) (PyBool True) of
             Inl e \<Rightarrow> LinearTransformsMapping_map L (Point [0,0,0]) (PyBool True) = Inl e
           | Inr y \<Rightarrow> (\<exists>z. LinearTransformsMapping_map L (Point [0,0,0]) (PyBool True) = Inr [z] \<and>
                          map (take (4 - 1)) z = y)))"
proof -
  have h: "rect 4 4 [[1,0,0,1],[0,1,0,2],[0,0,1,3],[0,0,0,1]]" by (simp add: rect_def)
  show ?thesis
    using h singleton_mapping_map [OF h, of "None :: unit option" "Point [0,0,0]" "PyBool True"]
    by simp
qed

subsection \<open>Correctness of the inverse\<close>

lemma dot_Nil [simp]: "dot [] v = 0" "dot u [] = 0"
  by (simp_all add: dot_def)

lemma dot_Cons [simp]: "dot (x # u) (y # v) = x * y + dot u v"
  by (simp add: dot_def)






lemma length_scale [simp]: "length (scale c p) = length p"
  by (simp add: scale_def)























subsection \<open>Round trip\<close>















subsection \<open>Equality\<close>






subsection \<open>Formats\<close>

text \<open>
  C9. \<^verbatim>\<open>to_filename\<close> without an explicit format always fails: the default format key
  \<^verbatim>\<open>X5\<close> is not in the dispatch table, so for every \<^verbatim>\<open>Affine\<close> and every
  \<^verbatim>\<open>LinearTransformsMapping\<close>, \<^verbatim>\<open>to_filename(path)\<close> raises \<^verbatim>\<open>NotImplementedError\<close> and leaves
  the files as they were. When a moving image is passed along with the default format
  the call fails as well and writes nothing (the error is that of \<^verbatim>\<open>ImageGrid\<close> if it
  rejects the image).
\<close>

theorem default_format_unsupported:
  "Affine_to_filename io xfm filename default_fmt None fs = (Inl NotImplementedError, fs) \<and>
   LinearTransformsMapping_to_filename io series filename default_fmt None fs
     = (Inl NotImplementedError, fs) \<and>
   (\<exists>e. Affine_to_filename io xfm filename default_fmt moving fs = (Inl e, fs)) \<and>
   (\<exists>e. LinearTransformsMapping_to_filename io series filename default_fmt moving fs
          = (Inl e, fs))"
  by (auto simp: Affine_to_filename_def LinearTransformsMapping_to_filename_def
      default_fmt_def lower_def lower_char_def moving_grid_def
      split: option.splits sum.splits)

lemma getitem_0:
  "rect n n m \<Longrightarrow> getitem \<lparr>matrices = [m], series_reference = r\<rparr> 0
      = Inr \<lparr>matrix = m, reference = r\<rparr>"
  by (simp add: getitem_def Affine_init_square)

text \<open>
  C5. For every file that the reader of a supported format reads (as a stack of square
  matrices of one size), \<^verbatim>\<open>load\<close> returns a plain \<^verbatim>\<open>Affine\<close>, holding the one matrix, when
  the file contains exactly one transform, and a \<^verbatim>\<open>LinearTransformsMapping\<close> of length N,
  holding the matrices in order, when the file contains N > 1 transforms.
\<close>

theorem load_collapse:
  assumes fmt: "select_factory fmt = Inr fac"
    and rd: "read_transforms io fac filename r moving = Inr ms"
    and sq: "list_all (rect n n) ms"
  shows "(length ms = 1 \<longrightarrow>
            load io filename fmt r moving
              = Inr (An_Affine \<lparr>matrix = ms ! 0, reference = r\<rparr>)) \<and>
         (1 < length ms \<longrightarrow>
            (\<exists>m. load io filename fmt r moving = Inr (A_Mapping m) \<and> len m = length ms \<and>
                 matrices m = ms))"
proof -
  let ?ts = "map (\<lambda>m. Raw (Arr2 m) :: 'b xfm) ms"
  have ff: "from_filename io Cls_LinearTransformsMapping filename fmt r moving
          = (case LinearTransformsMapping_init (Some ?ts) r of
               Inl e \<Rightarrow> Inl e | Inr m \<Rightarrow> Inr (A_Mapping m))"
    using fmt rd by (simp add: from_filename_def)
  have init: "LinearTransformsMapping_init (Some ?ts) r
              = Inr \<lparr>matrices = ms, series_reference = r\<rparr>" if "ms \<noteq> []"
    using that sequence_raw[OF sq, where 'r = 'b] np_stack_square[OF that sq]
    by (simp add: LinearTransformsMapping_init_def Affine_init_default)
  show ?thesis
  proof (intro conjI impI)
    assume l: "length ms = 1"
    then obtain m where m: "ms = [m]" by (cases ms) auto
    then have "rect n n m" using sq by simp
    then show "load io filename fmt r moving
               = Inr (An_Affine \<lparr>matrix = ms ! 0, reference = r\<rparr>)"
      using ff init m by (simp add: load_def len_def getitem_0)
  next
    assume l: "1 < length ms"
    then have "ms \<noteq> []" by auto
    then show "\<exists>m. load io filename fmt r moving = Inr (A_Mapping m) \<and>
                  len m = length ms \<and> matrices m = ms"
      using ff init l by (simp add: load_def len_def)
  qed
qed

theorem load_collapse_witness:
  "select_factory ''itk'' = Inr ITKLinearTransformArray \<and>
   read_transforms example_io ITKLinearTransformArray ''one.tfm'' None None = Inr [eye 4] \<and>
   read_transforms example_io ITKLinearTransformArray ''two.tfm'' None None
     = Inr [eye 4, eye 4] \<and>
   list_all (rect 4 4) [eye 4, eye 4] \<and>
   load example_io ''one.tfm'' ''itk'' None None
     = Inr (An_Affine \<lparr>matrix = eye 4, reference = None\<rparr>) \<and>
   (\<exists>m. load example_io ''two.tfm'' ''itk'' None None = Inr (A_Mapping m) \<and> len m = 2)"
proof -
  have f: "select_factory ''itk'' = Inr ITKLinearTransformArray"
    by (simp add: select_factory_def lower_def lower_char_def)
  have r1: "read_transforms example_io ITKLinearTransformArray ''one.tfm'' None None
            = Inr [eye 4]"
    and r2: "read_transforms example_io ITKLinearTransformArray ''two.tfm'' None None
            = Inr [eye 4, eye 4]"
    by (simp_all add: example_io_def)
  have s1: "list_all (rect 4 4) [eye 4]" and s2: "list_all (rect 4 4) [eye 4, eye 4]"
    by (simp_all add: rect_eye)
  show ?thesis
    using f r1 r2 s2 load_collapse [OF f r1 s1] load_collapse [OF f r2 s2]
    by (auto simp: numeral_2_eq_2)
qed

subsection \<open>Resampling\<close>

text \<open>
  C4, as amended. When \<^verbatim>\<open>apply\<close> is called with moving data that, once its axes of
  length 1 are squeezed out, is 4-D with a trailing (volume) axis whose length differs
  from the number of transforms, it raises an error and \<^verbatim>\<open>map_coordinates\<close> is never
  called; the error is the \<^verbatim>\<open>ValueError\<close> reporting the two counts whenever the steps
  that precede the check (resolving the reference, computing the sample locations)
  succeed.
\<close>

theorem volume_count_mismatch:
  assumes img: "resolve_image env spatialimage = Inr img"
    and four: "length (squeeze (dataobj_shape env img)) = 4"
    and neq: "len self \<noteq> last (squeeze (dataobj_shape env img))"
  shows "(\<exists>e. LinearTransformsMapping_apply env self spatialimage reference_arg opts
               = (Inl e, [])) \<and>
         (\<forall>ref targets. resolve_reference env self reference_arg = Inr ref \<longrightarrow>
            sample_targets env self ref img = Inr targets \<longrightarrow>
            LinearTransformsMapping_apply env self spatialimage reference_arg opts
              = (Inl (ValueError
                   ''Attempting to apply %d transforms on a file with %d timepoints''
                   [len self, last (squeeze (dataobj_shape env img))]), []))"
proof -
  have interp: "interpolate env self ref img opts targets
      = (Inl (ValueError ''Attempting to apply %d transforms on a file with %d timepoints''
                [len self, last (squeeze (dataobj_shape env img))]), [])" for ref targets
    using four neq by (simp add: interpolate_def Let_def)
  show ?thesis
    using img by (auto simp: LinearTransformsMapping_apply_def interp split: sum.splits)
qed

theorem volume_count_mismatch_witness:
  "resolve_image example_env (Object [2, 2, 2, 3]) = Inr [2, 2, 2, 3] \<and>
   length (squeeze (dataobj_shape example_env [2, 2, 2, 3])) = 4 \<and>
   len example_series \<noteq> last (squeeze (dataobj_shape example_env [2, 2, 2, 3])) \<and>
   LinearTransformsMapping_apply example_env example_series (Object [2, 2, 2, 3]) None
     example_opts
     = (Inl (ValueError ''Attempting to apply %d transforms on a file with %d timepoints''
               [2, 3]), [])"
proof -
  have h1: "resolve_image example_env (Object [2, 2, 2, 3]) = Inr [2, 2, 2, 3]"
    by (simp add: resolve_image_def)
  have h2: "length (squeeze (dataobj_shape example_env [2, 2, 2, 3])) = 4"
    by (simp add: squeeze_def example_env_def)
  have h3: "len example_series \<noteq> last (squeeze (dataobj_shape example_env [2, 2, 2, 3]))"
    by (simp add: squeeze_def example_env_def example_series_def len_def)
  have r: "resolve_reference example_env example_series None = Inr ()"
    by (simp add: resolve_reference_def example_series_def)
  have t: "sample_targets example_env example_series () [2, 2, 2, 3]
           = Inr [[0, 0, 0, 1], [0, 0, 0, 1]]"
    by code_simp
  show ?thesis
    using h1 h2 h3 r t
      volume_count_mismatch [OF h1 h2 h3, of None example_opts]
    by (auto simp: squeeze_def example_env_def example_series_def len_def)
qed

text \<open>
  The claim as stated (4-D moving data) fails for data whose volume axis has length 1:
  the data are squeezed to 3-D before the check, both transforms of the mapping are
  applied to the one volume, and \<^verbatim>\<open>map_coordinates\<close> is called.
\<close>

theorem singleton_volume_axis_counterexample:
  "length (dataobj_shape example_env [2, 2, 2, 1]) = 4 \<and>
   last (dataobj_shape example_env [2, 2, 2, 1]) \<noteq> len example_series \<and>
   LinearTransformsMapping_apply example_env example_series (Object [2, 2, 2, 1]) None
     example_opts
     = (Inr (Moved [[0], [0]]), [Map_coordinates None])"
  by code_simp

end
